theory Spec2Isabelle
  imports Main "HOL-Library.Sublist"
begin

section \<open>Strings\<close>

text \<open>
  Texts read from the page and from \<^verbatim>\<open>keys.txt\<close> are values of type \<open>string\<close>: one
  \<open>char\<close> per UTF-16 code unit, for texts all of whose code units are below 256 (the
  Latin-1 range, which holds the ASCII labels, the digits and the non-breaking space
  \<open>0xA0\<close> that the program looks for). \<open>length\<close> therefore counts what JavaScript's
  \<^verbatim>\<open>length\<close> counts.
\<close>

definition nbsp :: char where
  "nbsp = CHR 0xA0"

definition is_digit :: "char \<Rightarrow> bool" where
  "is_digit c = (c \<in> set ''0123456789'')"

definition is_hex :: "char \<Rightarrow> bool" where
  \<comment> \<open>the class \<^verbatim>\<open>[a-fA-F0-9]\<close>\<close>
  "is_hex c = (c \<in> set ''abcdefABCDEF0123456789'')"

definition is_space :: "char \<Rightarrow> bool" where
  \<comment> \<open>\<^verbatim>\<open>\s\<close> and the characters \<^verbatim>\<open>trim()\<close> strips: tab, LF, VT, FF, CR, space, NBSP\<close>
  "is_space c = (c \<in> {CHR 0x09, CHR 0x0A, CHR 0x0B, CHR 0x0C, CHR 0x0D, CHR '' '', nbsp})"

definition lower_char :: "char \<Rightarrow> char" where
  \<comment> \<open>\<^verbatim>\<open>toLowerCase\<close> on one Latin-1 code unit: A-Z, and 0xC0-0xDE except 0xD7\<close>
  "lower_char c =
     (let n = of_char c :: nat
      in if (65 \<le> n \<and> n \<le> 90) \<or> (192 \<le> n \<and> n \<le> 222 \<and> n \<noteq> 215)
         then char_of (n + 32) else c)"

definition toLowerCase :: "string \<Rightarrow> string" where
  "toLowerCase s = map lower_char s"

definition upper_ascii :: "char \<Rightarrow> char" where
  "upper_ascii c =
     (let n = of_char c :: nat in if 97 \<le> n \<and> n \<le> 122 then char_of (n - 32) else c)"

definition eq_ic :: "char \<Rightarrow> char \<Rightarrow> bool" where
  \<comment> \<open>a pattern letter under the \<^verbatim>\<open>i\<close> flag: the letters of the program's patterns are
      ASCII, and canonicalisation never maps a non-ASCII code unit to an ASCII one\<close>
  "eq_ic p c = (upper_ascii c = upper_ascii p)"

fun js_includes :: "'a list \<Rightarrow> 'a list \<Rightarrow> bool" where
  "js_includes [] sub = (sub = [])"
| "js_includes (c # cs) sub = (prefix sub (c # cs) \<or> js_includes cs sub)"

definition startsWith :: "'a list \<Rightarrow> 'a list \<Rightarrow> bool" where
  "startsWith s p = prefix p s"

definition trim :: "string \<Rightarrow> string" where
  "trim s = rev (dropWhile is_space (rev (dropWhile is_space s)))"

definition substring :: "string \<Rightarrow> int \<Rightarrow> int \<Rightarrow> string" where
  \<comment> \<open>\<^verbatim>\<open>s.substring(a, b)\<close> for \<open>a \<le> b\<close>: a negative index counts as 0, one beyond the end
      as the length\<close>
  "substring s a b = take (nat b - nat a) (drop (nat a) s)"

fun indexOf :: "string \<Rightarrow> string \<Rightarrow> int" where
  \<comment> \<open>\<^verbatim>\<open>s.indexOf(sub)\<close>: the first position of \<open>sub\<close>, or -1\<close>
  "indexOf [] sub = (if sub = [] then 0 else -1)"
| "indexOf (c # cs) sub =
     (if prefix sub (c # cs) then 0
      else (let k = indexOf cs sub in if k < 0 then -1 else k + 1))"

fun split_on :: "char \<Rightarrow> string \<Rightarrow> string list" where
  \<comment> \<open>\<^verbatim>\<open>s.split(sep)\<close> for a one-character separator\<close>
  "split_on sep [] = [[]]"
| "split_on sep (c # cs) =
     (if c = sep then [] # split_on sep cs
      else (case split_on sep cs of [] \<Rightarrow> [[c]] | l # ls \<Rightarrow> (c # l) # ls))"

definition digit_val :: "char \<Rightarrow> nat" where
  "digit_val c = of_char c - 48"

definition parse_digits :: "string \<Rightarrow> int" where
  "parse_digits ds = int (foldl (\<lambda>n c. 10 * n + digit_val c) 0 ds)"

definition parseInt :: "string \<Rightarrow> int option" where
  \<comment> \<open>\<^verbatim>\<open>parseInt(s, 10)\<close>: leading white space, an optional sign, then the longest run of
      digits; \<open>None\<close> is NaN. The value is the exact integer (a JavaScript number rounds
      it above \<open>2^53\<close>)\<close>
  "parseInt s =
     (let t = dropWhile is_space s;
          neg = (t \<noteq> [] \<and> hd t = CHR ''-'');
          u = (if t \<noteq> [] \<and> (hd t = CHR ''-'' \<or> hd t = CHR ''+'') then tl t else t);
          ds = takeWhile is_digit u
      in if ds = [] then None
         else Some (if neg then - parse_digits ds else parse_digits ds))"

section \<open>Regular expressions\<close>

text \<open>
  The patterns of the program are values of \<open>regex\<close>, matched by backtracking in
  ECMAScript's order of preference: \<open>ms r st\<close> lists every way \<open>r\<close> can match from the
  state \<open>st\<close>, the preferred one first. A state is the position, the text still to be
  read and the span of the capture group (each pattern of the program has at most one).
\<close>

datatype regex =
    Eps
  | Atom "char \<Rightarrow> bool"
  | Bol
  | Eol
  | Seq regex regex
  | Alt regex regex
  | Star regex
  | StarLazy regex
  | Rep nat nat regex
  | Group regex

type_synonym mstate = "nat \<times> string \<times> (nat \<times> nat) option"

fun times :: "(mstate \<Rightarrow> mstate list) \<Rightarrow> nat \<Rightarrow> mstate \<Rightarrow> mstate list" where
  \<comment> \<open>exactly \<open>n\<close> iterations\<close>
  "times f 0 st = [st]"
| "times f (Suc n) st = concat (map (times f n) (f st))"

fun iter_greedy :: "(mstate \<Rightarrow> mstate list) \<Rightarrow> nat \<Rightarrow> mstate \<Rightarrow> mstate list" where
  \<comment> \<open>at most \<open>n\<close> further iterations, as many as possible first; an iteration that
      consumes nothing is rejected\<close>
  "iter_greedy f 0 st = [st]"
| "iter_greedy f (Suc n) st =
     concat (map (iter_greedy f n) (filter (\<lambda>st'. fst st < fst st') (f st))) @ [st]"

fun iter_lazy :: "(mstate \<Rightarrow> mstate list) \<Rightarrow> nat \<Rightarrow> mstate \<Rightarrow> mstate list" where
  \<comment> \<open>at most \<open>n\<close> further iterations, as few as possible first\<close>
  "iter_lazy f 0 st = [st]"
| "iter_lazy f (Suc n) st =
     st # concat (map (iter_lazy f n) (filter (\<lambda>st'. fst st < fst st') (f st)))"

primrec ms :: "regex \<Rightarrow> mstate \<Rightarrow> mstate list" where
  "ms Eps st = [st]"
| "ms (Atom P) st =
     (case fst (snd st) of
        [] \<Rightarrow> []
      | c # cs \<Rightarrow> if P c then [(Suc (fst st), cs, snd (snd st))] else [])"
| "ms Bol st = (if fst st = 0 then [st] else [])"
| "ms Eol st = (if fst (snd st) = [] then [st] else [])"
| "ms (Seq r1 r2) st = concat (map (ms r2) (ms r1 st))"
| "ms (Alt r1 r2) st = ms r1 st @ ms r2 st"
| "ms (Star r) st = iter_greedy (ms r) (length (fst (snd st))) st"
| "ms (StarLazy r) st = iter_lazy (ms r) (length (fst (snd st))) st"
| "ms (Rep lo hi r) st = concat (map (iter_greedy (ms r) (hi - lo)) (times (ms r) lo st))"
| "ms (Group r) st = map (\<lambda>(p, rest, c). (p, rest, Some (fst st, p))) (ms r st)"

record match_result =
  index :: nat                   \<comment> \<open>\<^verbatim>\<open>match.index\<close>\<close>
  whole :: string                \<comment> \<open>\<^verbatim>\<open>match[0]\<close>\<close>
  group1 :: "string option"      \<comment> \<open>\<^verbatim>\<open>match[1]\<close>\<close>

definition found :: "string \<Rightarrow> nat \<Rightarrow> mstate \<Rightarrow> match_result" where
  \<comment> \<open>the match that starts at \<open>i\<close> and ends in the state \<open>st\<close>\<close>
  "found s i st =
     \<lparr>index = i, whole = take (fst st - i) (drop i s),
      group1 = map_option (\<lambda>(a, b). take (b - a) (drop a s)) (snd (snd st))\<rparr>"

fun search :: "regex \<Rightarrow> string \<Rightarrow> nat \<Rightarrow> string \<Rightarrow> match_result option" where
  \<comment> \<open>the leftmost start at which the pattern matches; \<open>i\<close> is the position of the
      text still to be read\<close>
  "search r s i [] =
     (case ms r (i, [], None) of st # _ \<Rightarrow> Some (found s i st) | [] \<Rightarrow> None)"
| "search r s i (c # cs) =
     (case ms r (i, c # cs, None) of
        st # _ \<Rightarrow> Some (found s i st)
      | [] \<Rightarrow> search r s (Suc i) cs)"

definition rx_match :: "regex \<Rightarrow> string \<Rightarrow> match_result option" where
  \<comment> \<open>\<^verbatim>\<open>s.match(r)\<close> without the \<^verbatim>\<open>g\<close> flag\<close>
  "rx_match r s = search r s 0 s"

definition rx_test :: "regex \<Rightarrow> string \<Rightarrow> bool" where
  "rx_test r s = (rx_match r s \<noteq> None)"

definition lit :: "string \<Rightarrow> regex" where
  "lit cs = foldr (\<lambda>c r. Seq (Atom (\<lambda>x. x = c)) r) cs Eps"

definition lit_i :: "string \<Rightarrow> regex" where
  \<comment> \<open>literal text under the \<^verbatim>\<open>i\<close> flag\<close>
  "lit_i cs = foldr (\<lambda>c r. Seq (Atom (eq_ic c)) r) cs Eps"

definition Plus :: "regex \<Rightarrow> regex" where
  "Plus r = Seq r (Star r)"

section \<open>Exceptions\<close>

text \<open>
  A message is a list of UTF-16 code units: the program only searches messages for a marker
  and stores them, and its own messages are Russian. A thrown value is an \<^verbatim>\<open>Error\<close>
  with its message, or any other value.
\<close>

type_synonym message = "nat list"

datatype exn = Error message | NonError

section \<open>Deriving the address\<close>

text \<open>
  The address is computed by \<^verbatim>\<open>privateKeyToAccount\<close> of the library \<^verbatim>\<open>viem\<close>, which is not
  part of the program: it is a parameter, a function that throws or gives the address of a
  key.
\<close>

type_synonym derivation = "string \<Rightarrow> exn + string"

definition zero_address :: string where
  "zero_address = ''0x0000000000000000000000000000000000000000''"

definition getAddressFromPrivateKey :: "derivation \<Rightarrow> string \<Rightarrow> string" where
  "getAddressFromPrivateKey privateKeyToAccount privateKey =
     (case privateKeyToAccount privateKey of
        Inr address \<Rightarrow> address
      | Inl e \<Rightarrow> zero_address)"

definition checksum_accounts :: derivation where
  \<comment> \<open>one value of the library's function, as its documentation gives it: the address
      comes in the mixed-case checksum encoding; every other string is taken as a key that
      the library rejects\<close>
  "checksum_accounts privateKey =
     (if privateKey = ''0xac0974bec39a17e36ba4a6b4d238ff944bacb478cbed5efcae784d7bf4f2ff80''
      then Inr ''0xf39Fd6e51aad88F6F4ce6aB8827279cffFb92266''
      else Inl (Error []))"

section \<open>Loading the keys\<close>

definition rx_key_prefixed :: regex where
  \<comment> \<open>\<^verbatim>\<open>/^0x[a-fA-F0-9]{64}$/\<close>\<close>
  "rx_key_prefixed = Seq Bol (Seq (lit ''0x'') (Seq (Rep 64 64 (Atom is_hex)) Eol))"

definition rx_key_bare :: regex where
  \<comment> \<open>\<^verbatim>\<open>/^[a-fA-F0-9]{64}$/\<close>\<close>
  "rx_key_bare = Seq Bol (Seq (Rep 64 64 (Atom is_hex)) Eol)"

fun parse_key_lines :: "string list \<Rightarrow> string list" where
  \<comment> \<open>the loop over the lines of \<^verbatim>\<open>keys.txt\<close>\<close>
  "parse_key_lines [] = []"
| "parse_key_lines (line # lines) =
     (let trimmedLine = trim line
      in if trimmedLine \<noteq> [] \<and> \<not> startsWith trimmedLine ''#'' then
           if rx_test rx_key_prefixed trimmedLine then trimmedLine # parse_key_lines lines
           else if rx_test rx_key_bare trimmedLine then (''0x'' @ trimmedLine) # parse_key_lines lines
           else parse_key_lines lines
         else parse_key_lines lines)"

record key_env =
  hasEncryptedKeys :: bool
    \<comment> \<open>\<^verbatim>\<open>KeyEncryption.hasEncryptedKeys()\<close>, of the module \<^verbatim>\<open>key-encryption.js\<close>\<close>
  promptPasswordWithRetry :: "exn + string list"
    \<comment> \<open>what \<^verbatim>\<open>KeyEncryption.promptPasswordWithRetry()\<close> does: throws, or returns keys\<close>
  keys_file :: "(exn + string) option"
    \<comment> \<open>\<^verbatim>\<open>keys.txt\<close>: absent, unreadable (\<^verbatim>\<open>readFileSync\<close> throws), or its content\<close>

definition loadPrivateKeys :: "key_env \<Rightarrow> exn + string list" where
  "loadPrivateKeys env =
     (if hasEncryptedKeys env then
        (case promptPasswordWithRetry env of Inr keys \<Rightarrow> Inr keys | Inl e \<Rightarrow> Inr [])
      else
        (case keys_file env of
           None \<Rightarrow> Inr []
         | Some (Inl e) \<Rightarrow> Inl e
         | Some (Inr content) \<Rightarrow> Inr (parse_key_lines (split_on (CHR 0x0A) content))))"

text \<open>The shape of a key in the words of the specification.\<close>

definition is_prefixed_key :: "string \<Rightarrow> bool" where
  \<comment> \<open>\<^verbatim>\<open>0x\<close> followed by exactly 64 hexadecimal digits\<close>
  "is_prefixed_key k = (take 2 k = ''0x'' \<and> length k = 66 \<and> list_all is_hex (drop 2 k))"

definition key_of_line :: "string \<Rightarrow> string option" where
  \<comment> \<open>the key a line of the file stands for, if any\<close>
  "key_of_line line =
     (let t = trim line
      in if is_prefixed_key t then Some t
         else if length t = 64 \<and> list_all is_hex t then Some (''0x'' @ t)
         else None)"

definition sample_key_env :: key_env where
  "sample_key_env =
     \<lparr>hasEncryptedKeys = False, promptPasswordWithRetry = Inr [],
      keys_file = Some (Inr (''# wallets'' @ [CHR 0x0A] @
        ''  ac0974bec39a17e36ba4a6b4d238ff944bacb478cbed5efcae784d7bf4f2ff80 '' @ [CHR 0x0D, CHR 0x0A] @
        [CHR 0x0A] @
        ''0x59C6995E998F97A5A0044966F0945389DC9E86DAE88C7A8412F4603B6B78690D'' @ [CHR 0x0A] @
        ''0x1234'' @ [CHR 0x0A]))\<rparr>"

section \<open>The page\<close>

text \<open>
  A page is the tree of its nodes. An element carries its computed style and its
  \<^verbatim>\<open>innerText\<close>, which the browser derives from the rendering; \<^verbatim>\<open>textContent\<close> is
  computed from the tree. An element is handled through the chain that leads from it to
  the root, each node with its index among its parent's child nodes, so that its parent,
  its siblings and its ancestors can be read off.
\<close>

record style =
  display :: string
  visibility :: string
  opacity :: string

datatype node = Text string | Element style string "node list"

fun textContent :: "node \<Rightarrow> string" where
  "textContent (Text t) = t"
| "textContent (Element st it cs) = concat (map textContent cs)"

fun innerText :: "node \<Rightarrow> string" where
  "innerText (Text t) = []"
| "innerText (Element st it cs) = it"

fun is_element :: "node \<Rightarrow> bool" where
  "is_element (Text t) = False"
| "is_element (Element st it cs) = True"

fun childNodes :: "node \<Rightarrow> node list" where
  "childNodes (Text t) = []"
| "childNodes (Element st it cs) = cs"

fun visible :: "node \<Rightarrow> bool" where
  \<comment> \<open>\<^verbatim>\<open>style.display !== 'none' && style.visibility !== 'hidden'\<close>\<close>
  "visible (Text t) = False"
| "visible (Element st it cs) = (display st \<noteq> ''none'' \<and> visibility st \<noteq> ''hidden'')"

fun opaque :: "node \<Rightarrow> bool" where
  \<comment> \<open>\<^verbatim>\<open>style.opacity !== '0'\<close>\<close>
  "opaque (Text t) = False"
| "opaque (Element st it cs) = (opacity st \<noteq> ''0'')"

type_synonym element = "(nat \<times> node) list"

record document =
  html :: node         \<comment> \<open>\<^verbatim>\<open>document.documentElement\<close>\<close>
  body_index :: nat    \<comment> \<open>the position of \<^verbatim>\<open>document.body\<close> among its child nodes\<close>

definition body :: "document \<Rightarrow> element option" where
  "body d =
     (let cs = childNodes (html d)
      in if body_index d < length cs \<and> is_element (cs ! body_index d)
         then Some [(body_index d, cs ! body_index d), (0, html d)] else None)"

definition nextElementSibling :: "element \<Rightarrow> node option" where
  "nextElementSibling el =
     (case el of
        (i, _) # (_, parent) # _ \<Rightarrow> find is_element (drop (Suc i) (childNodes parent))
      | _ \<Rightarrow> None)"

definition children :: "node \<Rightarrow> node list" where
  "children n = filter is_element (childNodes n)"

definition parentElement :: "element \<Rightarrow> node option" where
  "parentElement el = (case el of _ # (_, parent) # _ \<Rightarrow> Some parent | _ \<Rightarrow> None)"

definition other_children :: "element \<Rightarrow> node list" where
  \<comment> \<open>the elements of \<^verbatim>\<open>parentElement.children\<close> other than the element itself\<close>
  "other_children el =
     (case el of
        (i, _) # (_, parent) # _ \<Rightarrow>
          map snd (filter (\<lambda>(j, c). is_element c \<and> j \<noteq> i) (enumerate 0 (childNodes parent)))
      | _ \<Rightarrow> [])"

section \<open>Extracting the points\<close>

definition rx_number :: regex where
  \<comment> \<open>\<^verbatim>\<open>(\d{1,3}(?:[,\s\u00A0]\d{3})*|\d+)\<close>\<close>
  "rx_number =
     Group (Alt (Seq (Rep 1 3 (Atom is_digit))
                     (Star (Seq (Atom (\<lambda>c. c = CHR '','' \<or> is_space c \<or> c = nbsp))
                                (Rep 3 3 (Atom is_digit)))))
                (Plus (Atom is_digit)))"

definition rx_my_points :: regex where
  \<comment> \<open>\<^verbatim>\<open>/My\s+Points[^\d]*(\d{1,3}(?:[,\s\u00A0]\d{3})*|\d+)/i\<close>\<close>
  "rx_my_points =
     Seq (lit_i ''My'') (Seq (Plus (Atom is_space)) (Seq (lit_i ''Points'')
       (Seq (Star (Atom (\<lambda>c. \<not> is_digit c))) rx_number)))"

definition rx_my_points_lazy :: regex where
  \<comment> \<open>\<^verbatim>\<open>/My\s+Points\s*[^\d]*?(\d{1,3}(?:[,\s\u00A0]\d{3})*|\d+)/i\<close>\<close>
  "rx_my_points_lazy =
     Seq (lit_i ''My'') (Seq (Plus (Atom is_space)) (Seq (lit_i ''Points'')
       (Seq (Star (Atom is_space)) (Seq (StarLazy (Atom (\<lambda>c. \<not> is_digit c))) rx_number))))"

definition rx_pure_number :: regex where
  \<comment> \<open>\<^verbatim>\<open>/^\s*(\d{1,3}(?:[,\s\u00A0]\d{3})*|\d+)\s*$/\<close>\<close>
  "rx_pure_number =
     Seq Bol (Seq (Star (Atom is_space)) (Seq rx_number (Seq (Star (Atom is_space)) Eol)))"

definition clean_number :: "string \<Rightarrow> string" where
  \<comment> \<open>\<^verbatim>\<open>.replace(/[\s\u00A0,]/g, '')\<close>\<close>
  "clean_number g = filter (\<lambda>c. \<not> (is_space c \<or> c = nbsp \<or> c = CHR '','')) g"

definition positive_number :: "string \<Rightarrow> int option" where
  \<comment> \<open>the captured number, cleaned and parsed, kept when \<^verbatim>\<open>!isNaN(num) && num > 0\<close>\<close>
  "positive_number g =
     (case parseInt (clean_number g) of
        Some num \<Rightarrow> if num > 0 then Some num else None
      | None \<Rightarrow> None)"

definition to_rank_follows :: "string \<Rightarrow> bool" where
  "to_rank_follows afterNumber =
     (js_includes (toLowerCase afterNumber) ''points to rank'' \<or>
      js_includes (toLowerCase afterNumber) ''to rank'')"

definition fast_path :: "string \<Rightarrow> int option" where
  \<comment> \<open>lines 1040-1056, on \<^verbatim>\<open>bodyInnerText || bodyText\<close>\<close>
  "fast_path t =
     (case rx_match rx_my_points t of
        None \<Rightarrow> None
      | Some m \<Rightarrow>
          (case group1 m of
             None \<Rightarrow> None
           | Some g \<Rightarrow>
               if g = [] then None
               else
                 let e = int (index m) + int (length (whole m));
                     afterNumber = substring t e (e + 30)
                 in if \<not> to_rank_follows afterNumber then positive_number g else None))"

definition pure_number :: "string \<Rightarrow> int option" where
  \<comment> \<open>a text that is one number and nothing else (strategies 1, 2 and 4)\<close>
  "pure_number t =
     (case rx_match rx_pure_number t of
        None \<Rightarrow> None
      | Some m \<Rightarrow>
          (case group1 m of
             None \<Rightarrow> None
           | Some g \<Rightarrow> if g = [] then None else positive_number g))"

definition labelled_number :: "string \<Rightarrow> int option" where
  \<comment> \<open>the label followed by a number in a container's text (strategies 3 and 5)\<close>
  "labelled_number combinedText =
     (case rx_match rx_my_points_lazy combinedText of
        None \<Rightarrow> None
      | Some m \<Rightarrow>
          (case group1 m of
             None \<Rightarrow> None
           | Some g \<Rightarrow>
               if g = [] then None
               else
                 let numberIndex = indexOf combinedText g;
                     e = numberIndex + int (length g);
                     afterNumber = substring combinedText e (e + 30)
                 in if \<not> to_rank_follows afterNumber then positive_number g else None))"

fun first_some :: "('a \<Rightarrow> 'b option) \<Rightarrow> 'a list \<Rightarrow> 'b option" where
  \<comment> \<open>a loop that stops at the first element that gives a value\<close>
  "first_some f [] = None"
| "first_some f (x # xs) = (case f x of Some y \<Rightarrow> Some y | None \<Rightarrow> first_some f xs)"

definition strategy1 :: "element \<Rightarrow> int option" where
  \<comment> \<open>the next sibling element, lines 1118-1143\<close>
  "strategy1 el =
     (case nextElementSibling el of
        None \<Rightarrow> None
      | Some nextSibling \<Rightarrow>
          if visible nextSibling then
            let text = trim (textContent nextSibling);
                innerText = trim (innerText nextSibling);
                combinedText = (if text \<noteq> [] then text else innerText);
                low = toLowerCase combinedText
            in if \<not> js_includes low ''points'' \<and> \<not> js_includes low ''to rank'' \<and>
                  \<not> js_includes low ''referrals'' \<and> \<not> js_includes low ''unranked''
               then pure_number combinedText else None
          else None)"

definition strategy2 :: "element \<Rightarrow> int option" where
  \<comment> \<open>the child elements, lines 1146-1169\<close>
  "strategy2 el =
     first_some
       (\<lambda>child.
          if \<not> visible child then None
          else pure_number
                 (trim (if innerText child \<noteq> [] then innerText child else textContent child)))
       (children (snd (hd el)))"

definition strategy3 :: "element \<Rightarrow> int option" where
  \<comment> \<open>the parent's text, lines 1172-1206\<close>
  "strategy3 el =
     (case parentElement el of
        None \<Rightarrow> None
      | Some parent \<Rightarrow>
          let combinedText = (if innerText parent \<noteq> [] then innerText parent
                              else textContent parent)
          in if \<not> js_includes combinedText ''Referrals'' \<and>
                \<not> js_includes combinedText ''Your Rank'' \<and>
                \<not> js_includes (toLowerCase combinedText) ''to rank'' \<and>
                \<not> js_includes combinedText ''Unranked''
             then labelled_number combinedText else None)"

definition strategy4 :: "element \<Rightarrow> int option" where
  \<comment> \<open>the other children of the parent, lines 1209-1242\<close>
  "strategy4 el =
     first_some
       (\<lambda>sibling.
          if \<not> visible sibling then None
          else
            let combinedText = (if innerText sibling \<noteq> [] then innerText sibling
                                else textContent sibling)
            in if js_includes combinedText ''Referrals'' \<or>
                  js_includes combinedText ''Your Rank'' \<or>
                  js_includes (toLowerCase combinedText) ''to rank'' \<or>
                  js_includes combinedText ''Unranked''
               then None
               else pure_number (trim combinedText))
       (other_children el)"

fun strategy5_loop :: "nat \<Rightarrow> node list \<Rightarrow> int option" where
  \<comment> \<open>\<^verbatim>\<open>for (let i = 0; i < 4 && container; i++)\<close>, with the containers still to visit\<close>
  "strategy5_loop 0 containers = None"
| "strategy5_loop (Suc n) [] = None"
| "strategy5_loop (Suc n) (container # up) =
     (let combinedText = (if innerText container \<noteq> [] then innerText container
                          else textContent container)
      in if js_includes combinedText ''Referrals'' \<or>
            js_includes combinedText ''Your Rank'' \<or>
            js_includes (toLowerCase combinedText) ''to rank''
         then None
         else (case labelled_number combinedText of
                 Some num \<Rightarrow> Some num
               | None \<Rightarrow> strategy5_loop n up))"

definition strategy5 :: "element \<Rightarrow> int option" where
  \<comment> \<open>the element and its ancestors, lines 1245-1282\<close>
  "strategy5 el = strategy5_loop 4 (map snd el)"

definition or_else :: "'a option \<Rightarrow> 'a option \<Rightarrow> 'a option" where
  "or_else a b = (case a of Some x \<Rightarrow> Some x | None \<Rightarrow> b)"

definition points_of_element :: "element \<Rightarrow> int option" where
  \<comment> \<open>the body of the loop over \<^verbatim>\<open>myPointsElements\<close>, lines 1112-1287: a strategy runs when
      the ones before it found nothing\<close>
  "points_of_element el =
     (case or_else (strategy1 el) (or_else (strategy2 el) (or_else (strategy3 el)
             (or_else (strategy4 el) (strategy5 el)))) of
        Some points \<Rightarrow> if points > 0 then Some points else None
      | None \<Rightarrow> None)"

definition accepts_element :: "node \<Rightarrow> bool" where
  \<comment> \<open>the filter of the tree walker on an element, lines 1071-1078\<close>
  "accepts_element el =
     (let text = textContent el; innerText = innerText el
      in text = ''My Points'' \<or> innerText = ''My Points'' \<or>
         (js_includes text ''My Points'' \<and> length text < 50) \<or>
         (js_includes innerText ''My Points'' \<and> length innerText < 50))"

fun walk :: "element \<Rightarrow> nat \<Rightarrow> node \<Rightarrow> element list"
  and walk_nodes :: "element \<Rightarrow> nat \<Rightarrow> node list \<Rightarrow> element list" where
  \<comment> \<open>the tree walker and the loop that collects \<^verbatim>\<open>myPointsElements\<close>, lines 1060-1105:
      \<open>walk parent i n\<close> visits the node \<open>n\<close>, the \<open>i\<close>-th child node of \<open>parent\<close>\<close>
  "walk parent i (Text t) =
     (if js_includes t ''My Points'' \<and> visible (snd (hd parent)) \<and> opaque (snd (hd parent))
      then [parent] else [])"
| "walk parent i (Element st it cs) =
     (if accepts_element (Element st it cs) \<and> visible (Element st it cs) \<and>
         opaque (Element st it cs)
      then [(i, Element st it cs) # parent] else []) @
     walk_nodes ((i, Element st it cs) # parent) 0 cs"
| "walk_nodes parent i [] = []"
| "walk_nodes parent i (n # ns) = walk parent i n @ walk_nodes parent (Suc i) ns"

definition extract_points :: "document \<Rightarrow> int option" where
  \<comment> \<open>the function evaluated in the page, lines 1029-1290; a page without a body makes it
      throw, which its caller turns into \<^verbatim>\<open>null\<close>\<close>
  "extract_points d =
     (case body d of
        None \<Rightarrow> None
      | Some b \<Rightarrow>
          let bodyText = textContent (snd (hd b));
              bodyInnerText = innerText (snd (hd b))
          in if \<not> js_includes bodyText ''My Points'' \<and> \<not> js_includes bodyInnerText ''My Points''
             then None
             else (case fast_path (if bodyInnerText \<noteq> [] then bodyInnerText else bodyText) of
                     Some num \<Rightarrow> Some num
                   | None \<Rightarrow>
                       first_some points_of_element
                         (walk_nodes b 0 (childNodes (snd (hd b))))))"

section \<open>The result store\<close>

text \<open>
  A wallet's row, without its row number and its time stamps. The connection is the
  module's variable \<^verbatim>\<open>db\<close>: \<open>None\<close> until \<^verbatim>\<open>initDatabase\<close> has succeeded; a connection
  whose statements throw is \<open>failing\<close>.
\<close>

datatype status = success | error | empty_balance | pending

record WalletRecord =
  address :: string
  points :: "int option"
  status :: status
  error_message :: "message option"

record connection =
  rows :: "string \<rightharpoonup> WalletRecord"
  failing :: bool

definition not_initialised :: message where
  "not_initialised =
     [0x411, 0x430, 0x437, 0x430, 0x20, 0x434, 0x430, 0x43d, 0x43d, 0x44b, 0x445, 0x20, 0x43d,
      0x435, 0x20, 0x438, 0x43d, 0x438, 0x446, 0x438, 0x430, 0x43b, 0x438, 0x437, 0x438, 0x440,
      0x43e, 0x432, 0x430, 0x43d, 0x430]"

definition getWalletByAddress :: "connection option \<Rightarrow> string \<Rightarrow> exn + WalletRecord option" where
  "getWalletByAddress db addr =
     (case db of
        None \<Rightarrow> Inl (Error not_initialised)
      | Some conn \<Rightarrow> if failing conn then Inr None else Inr (rows conn addr))"

definition shouldSkipWallet :: "connection option \<Rightarrow> string \<Rightarrow> exn + bool" where
  "shouldSkipWallet db addr =
     (case getWalletByAddress db addr of
        Inl e \<Rightarrow> Inl e
      | Inr None \<Rightarrow> Inr False
      | Inr (Some wallet) \<Rightarrow>
          Inr (status wallet = success \<and>
               (case points wallet of None \<Rightarrow> False | Some p \<Rightarrow> p > 0)))"

definition saveWalletData ::
  "connection option \<Rightarrow> string \<Rightarrow> int option \<Rightarrow> status \<Rightarrow> message option \<Rightarrow>
     exn + connection option" where
  \<comment> \<open>the upsert; \<^verbatim>\<open>errorMessage || null\<close> stores an absent or empty message as null\<close>
  "saveWalletData db addr pts st errorMessage =
     (case db of
        None \<Rightarrow> Inl (Error not_initialised)
      | Some conn \<Rightarrow>
          if failing conn then Inr (Some conn)
          else Inr (Some (conn\<lparr>rows := (rows conn)(addr \<mapsto>
                 \<lparr>address = addr, points = pts, status = st,
                  error_message = (case errorMessage of
                                     None \<Rightarrow> None
                                   | Some m \<Rightarrow> if m = [] then None else Some m)\<rparr>)\<rparr>)))"

section \<open>One wallet\<close>

text \<open>
  What the program does to the outside is kept in a log of its calls, next to the
  connection. What the browser does in one run is the run's environment: for each block of
  the code that can only end in a few ways, the way it ends.
\<close>

datatype event =
    LaunchBrowser
  | SaveWalletData string "int option" status "message option"
  | ContextClose bool        \<comment> \<open>\<^verbatim>\<open>context.close()\<close>, and whether it threw\<close>
  | CleanupTempProfile

record world =
  db :: "connection option"
  log :: "event list"

definition balance_empty :: message where
  \<comment> \<open>the marker that is looked for in a message\<close>
  "balance_empty = [0x431, 0x430, 0x43b, 0x430, 0x43d, 0x441, 0x20, 0x43f, 0x443, 0x441, 0x442]"

definition wallet_unsuitable :: message where
  \<comment> \<open>the message thrown at line 1641; it ends with the marker\<close>
  "wallet_unsuitable =
     [0x41a, 0x43e, 0x448, 0x435, 0x43b, 0x435, 0x43a, 0x20, 0x43d, 0x435, 0x20, 0x43f, 0x43e,
      0x434, 0x445, 0x43e, 0x434, 0x438, 0x442, 0x3a, 0x20, 0x431, 0x430, 0x43b, 0x430, 0x43d,
      0x441, 0x20, 0x43f, 0x443, 0x441, 0x442]"

definition balance_is_empty :: message where
  \<comment> \<open>the message stored with \<open>empty_balance\<close> at line 1960\<close>
  "balance_is_empty = [0x411, 0x430, 0x43b, 0x430, 0x43d, 0x441, 0x20, 0x43f, 0x443, 0x441, 0x442]"

definition unknown_error :: message where
  "unknown_error =
     [0x41d, 0x435, 0x438, 0x437, 0x432, 0x435, 0x441, 0x442, 0x43d, 0x430, 0x44f, 0x20, 0x43e,
      0x448, 0x438, 0x431, 0x43a, 0x430]"

definition extension_not_found :: message where
  "extension_not_found =
     [0x41d, 0x435, 0x20, 0x443, 0x434, 0x430, 0x43b, 0x43e, 0x441, 0x44c, 0x20, 0x43d, 0x430,
      0x439, 0x442, 0x438, 0x20, 0x440, 0x430, 0x441, 0x448, 0x438, 0x440, 0x435, 0x43d, 0x438,
      0x435, 0x20, 0x52, 0x61, 0x69, 0x6e, 0x62, 0x6f, 0x77, 0x20, 0x57, 0x61, 0x6c, 0x6c, 0x65,
      0x74]"

definition is_empty_balance :: "exn \<Rightarrow> bool" where
  \<comment> \<open>\<^verbatim>\<open>error instanceof Error && error.message.includes(...)\<close>\<close>
  "is_empty_balance e = (case e of Error m \<Rightarrow> js_includes m balance_empty | NonError \<Rightarrow> False)"

definition message_of :: "exn \<Rightarrow> message" where
  \<comment> \<open>\<^verbatim>\<open>error instanceof Error ? error.message : ...\<close>\<close>
  "message_of e = (case e of Error m \<Rightarrow> m | NonError \<Rightarrow> unknown_error)"

definition rx_points_earned :: regex where
  \<comment> \<open>\<^verbatim>\<open>/Points\s+Earned:\s*(\d{1,3}(?:[,\s\u00A0]\d{3})*|\d+)/i\<close>\<close>
  "rx_points_earned =
     Seq (lit_i ''Points'') (Seq (Plus (Atom is_space)) (Seq (lit_i ''Earned:'')
       (Seq (Star (Atom is_space)) rx_number)))"

definition points_earned :: "string \<Rightarrow> int option" where
  \<comment> \<open>lines 1655-1671, on \<^verbatim>\<open>bodyInnerText || bodyText\<close>\<close>
  "points_earned combinedText =
     (case rx_match rx_points_earned combinedText of
        None \<Rightarrow> None
      | Some m \<Rightarrow>
          (case group1 m of
             None \<Rightarrow> None
           | Some g \<Rightarrow> if g = [] then None else positive_number g))"

record referral_env =
  fill_code :: "exn + bool"
    \<comment> \<open>lines 1329-1420: \<^verbatim>\<open>inputFound\<close>, or what the \<^verbatim>\<open>page.evaluate\<close> of line 1378 throws\<close>
  press_enter :: "exn option"
    \<comment> \<open>lines 1430-1521: what the \<^verbatim>\<open>page.evaluate\<close> of line 1471 throws, if it does\<close>
  sign_in_found :: bool
    \<comment> \<open>lines 1535-1580: \<^verbatim>\<open>signInButtonFound\<close>\<close>
  closed_after_sign_in :: bool
    \<comment> \<open>line 1586: \<^verbatim>\<open>page.isClosed()\<close>\<close>
  fund_wallet_found :: bool
    \<comment> \<open>lines 1599-1638: \<^verbatim>\<open>fundWalletButtonFound\<close>\<close>
  earned :: "exn + string \<times> bool"
    \<comment> \<open>lines 1644-1840: an exception inside the block, or the page text read at line 1655
        and \<^verbatim>\<open>doneButtonFound\<close>\<close>

definition referral_steps :: "referral_env \<Rightarrow> exn + int option" where
  \<comment> \<open>the \<^verbatim>\<open>try\<close> block of \<^verbatim>\<open>enterReferralCode\<close>, lines 1313-1847\<close>
  "referral_steps env =
     (case fill_code env of
        Inl e \<Rightarrow> Inl e
      | Inr inputFound \<Rightarrow>
          if \<not> inputFound then Inr None
          else (case press_enter env of
                  Some e \<Rightarrow> Inl e
                | None \<Rightarrow>
                    if sign_in_found env then
                      if closed_after_sign_in env then Inr None
                      else if fund_wallet_found env then Inl (Error wallet_unsuitable)
                      else (case earned env of
                              Inl e \<Rightarrow> Inr None
                            | Inr (text, doneButtonFound) \<Rightarrow>
                                (case points_earned text of
                                   Some pointsEarned \<Rightarrow>
                                     if doneButtonFound then Inr (Some pointsEarned)
                                     else Inr None
                                 | None \<Rightarrow> Inr None))
                    else Inr None))"

definition enterReferralCode :: "referral_env \<Rightarrow> exn + int option" where
  \<comment> \<open>with the handler of lines 1848-1854: only the empty-balance error is thrown on\<close>
  "enterReferralCode env =
     (case referral_steps env of
        Inr r \<Rightarrow> Inr r
      | Inl e \<Rightarrow> if is_empty_balance e then Inl e else Inr None)"

record check_env =
  page_closed :: bool
    \<comment> \<open>line 907: \<^verbatim>\<open>page.isClosed()\<close>\<close>
  referral_button :: bool
    \<comment> \<open>lines 923-960: \<^verbatim>\<open>buttonFound\<close>\<close>
  referral :: referral_env
  page :: "exn + document"
    \<comment> \<open>line 1029: \<^verbatim>\<open>page.evaluate\<close> throws, or runs on this document\<close>

definition check_steps :: "check_env \<Rightarrow> exn + int option" where
  \<comment> \<open>the \<^verbatim>\<open>try\<close> block of \<^verbatim>\<open>checkPointsOrUseReferralCode\<close>, lines 902-1299\<close>
  "check_steps env =
     (if page_closed env then Inr None
      else if referral_button env then
        (case enterReferralCode (referral env) of
           Inr (Some pointsFromReferral) \<Rightarrow> Inr (Some pointsFromReferral)
         | Inr None \<Rightarrow> Inr None
         | Inl e \<Rightarrow> if is_empty_balance e then Inl e else Inr None)
      else
        (case page env of
           Inl e \<Rightarrow> Inr None
         | Inr d \<Rightarrow> Inr (extract_points d)))"

definition checkPointsOrUseReferralCode :: "check_env \<Rightarrow> exn + int option" where
  \<comment> \<open>with the handler of lines 1300-1302, which returns \<^verbatim>\<open>null\<close> for every exception\<close>
  "checkPointsOrUseReferralCode env =
     (case check_steps env of
        Inr r \<Rightarrow> Inr r
      | Inl e \<Rightarrow> Inr None)"

record wallet_env =
  launch :: "exn option"
    \<comment> \<open>\<^verbatim>\<open>launchBrowserWithRainbow\<close>: what it throws, or \<open>None\<close> when the session is there\<close>
  find_extension :: "exn + bool"
    \<comment> \<open>\<^verbatim>\<open>findRainbowExtensionId\<close>: what it throws, or whether it returns an id\<close>
  open_wallet :: "exn option"
    \<comment> \<open>\<^verbatim>\<open>openRainbowWallet\<close>: what it throws, if it does\<close>
  goto_main :: "exn option"
    \<comment> \<open>line 1917, \<^verbatim>\<open>walletPage.goto\<close>: what it throws, if it does\<close>
  check :: check_env
  close_throws :: bool
    \<comment> \<open>whether \<^verbatim>\<open>context.close()\<close> throws\<close>

definition save :: "world \<Rightarrow> string \<Rightarrow> int option \<Rightarrow> status \<Rightarrow> message option \<Rightarrow> world" where
  \<comment> \<open>\<^verbatim>\<open>try { saveWalletData(...) } catch { }\<close>\<close>
  "save w addr pts st errorMessage =
     \<lparr>db = (case saveWalletData (db w) addr pts st errorMessage of
              Inl e \<Rightarrow> db w
            | Inr db' \<Rightarrow> db'),
      log = log w @ [SaveWalletData addr pts st errorMessage]\<rparr>"

definition close_session :: "wallet_env \<Rightarrow> world \<Rightarrow> world" where
  \<comment> \<open>\<^verbatim>\<open>try { if (context) await context.close() } catch { }\<close> and then
      \<^verbatim>\<open>if (tempProfile) cleanupTempProfile(tempProfile)\<close>, for a session that is there\<close>
  "close_session env w = w\<lparr>log := log w @ [ContextClose (close_throws env), CleanupTempProfile]\<rparr>"

definition failed :: "wallet_env \<Rightarrow> string \<Rightarrow> bool \<Rightarrow> exn \<Rightarrow> world \<Rightarrow> (exn + bool) \<times> world" where
  \<comment> \<open>the handler of lines 2004-2029; \<open>session\<close> says whether \<^verbatim>\<open>context\<close> and
      \<^verbatim>\<open>tempProfile\<close> have been assigned\<close>
  "failed env walletAddress session e w =
     (let w1 = save w walletAddress None error (Some (message_of e))
      in (Inl e, if session then close_session env w1 else w1))"

definition processWallet ::
  "derivation \<Rightarrow> wallet_env \<Rightarrow> string \<Rightarrow> world \<Rightarrow> (exn + bool) \<times> world" where
  \<comment> \<open>the steps between \<^verbatim>\<open>openRainbowWallet\<close> and line 1915 catch their own exceptions and
      leave no trace here\<close>
  "processWallet privateKeyToAccount env privateKey w =
     (let walletAddress = getAddressFromPrivateKey privateKeyToAccount privateKey;
          w0 = w\<lparr>log := log w @ [LaunchBrowser]\<rparr>
      in case launch env of
           Some e \<Rightarrow> failed env walletAddress False e w0
         | None \<Rightarrow>
            (case find_extension env of
               Inl e \<Rightarrow> failed env walletAddress True e w0
             | Inr False \<Rightarrow> failed env walletAddress True (Error extension_not_found) w0
             | Inr True \<Rightarrow>
                (case open_wallet env of
                   Some e \<Rightarrow> failed env walletAddress True e w0
                 | None \<Rightarrow>
                    (case goto_main env of
                       Some e \<Rightarrow> (Inr True, close_session env w0)
                     | None \<Rightarrow>
                        (case checkPointsOrUseReferralCode (check env) of
                           Inr (Some pts) \<Rightarrow>
                             (Inr True,
                              close_session env (save w0 walletAddress (Some pts) success None))
                         | Inr None \<Rightarrow> (Inr True, close_session env w0)
                         | Inl e \<Rightarrow>
                             if is_empty_balance e then
                               (Inr False,
                                close_session env
                                  (save w0 walletAddress (Some 0) empty_balance
                                     (Some balance_is_empty)))
                             else (Inr True, close_session env w0))))))"

section \<open>All wallets\<close>

record counters =
  successCount :: nat
  errorCount :: nat
  skippedCount :: nat

fun importWallet_loop ::
  "derivation \<Rightarrow> (string \<times> wallet_env) list \<Rightarrow> world \<times> counters \<Rightarrow> exn + world \<times> counters" where
  \<comment> \<open>the loop of \<^verbatim>\<open>importWallet\<close> over the keys, lines 2079-2112, each key with the
      environment of its run; an exception of \<^verbatim>\<open>shouldSkipWallet\<close> leaves the loop\<close>
  "importWallet_loop privateKeyToAccount [] (w, c) = Inr (w, c)"
| "importWallet_loop privateKeyToAccount ((privateKey, env) # rest) (w, c) =
     (let walletAddress = getAddressFromPrivateKey privateKeyToAccount privateKey
      in case shouldSkipWallet (db w) walletAddress of
           Inl e \<Rightarrow> Inl e
         | Inr True \<Rightarrow>
             importWallet_loop privateKeyToAccount rest (w, c\<lparr>skippedCount := skippedCount c + 1\<rparr>)
         | Inr False \<Rightarrow>
             (case processWallet privateKeyToAccount env privateKey w of
                (Inr result, w') \<Rightarrow>
                  importWallet_loop privateKeyToAccount rest
                    (w', if result then c\<lparr>successCount := successCount c + 1\<rparr> else c)
              | (Inl e, w') \<Rightarrow>
                  importWallet_loop privateKeyToAccount rest
                    (save w' walletAddress None error (Some (message_of e)),
                     c\<lparr>errorCount := errorCount c + 1\<rparr>)))"

section \<open>Sample pages and runs\<close>

definition shown :: style where
  "shown = \<lparr>display = ''block'', visibility = ''visible'', opacity = ''1''\<rparr>"

definition not_rendered :: style where
  "not_rendered = \<lparr>display = ''none'', visibility = ''visible'', opacity = ''1''\<rparr>"

definition leaf :: "string \<Rightarrow> node" where
  \<comment> \<open>a visible element that holds one text\<close>
  "leaf t = Element shown t [Text t]"

definition page_of :: "string \<Rightarrow> node list \<Rightarrow> document" where
  \<comment> \<open>a document with an empty head and a visible body of the given rendered text and
      child nodes\<close>
  "page_of t ns =
     \<lparr>html = Element shown t [Element not_rendered [] [], Element shown t ns], body_index = 1\<rparr>"

definition rank_text :: string where
  "rank_text = ''My Points 750 points to rank #1,200''"

definition rank_page_plain :: document where
  \<comment> \<open>the text as one text node of the body\<close>
  "rank_page_plain = page_of rank_text [Text rank_text]"

definition rank_page_split :: document where
  \<comment> \<open>the same text, with the label and the number in elements of their own\<close>
  "rank_page_split =
     page_of rank_text
       [Element shown rank_text
          [leaf ''My Points'', Text '' '', leaf ''750'', Text '' points to rank #1,200'']]"

definition zero_page :: document where
  \<comment> \<open>the label and, as its next sibling, the text 0\<close>
  "zero_page = page_of (''My Points'' @ [CHR 0x0A] @ ''0'') [leaf ''My Points'', leaf ''0'']"

definition grouped_page :: document where
  \<comment> \<open>the label and, as its next sibling, the text 12,345\<close>
  "grouped_page =
     page_of (''My Points'' @ [CHR 0x0A] @ ''12,345'') [leaf ''My Points'', leaf ''12,345'']"

definition grouped_rank_page :: document where
  \<comment> \<open>the label, the number as its next sibling, and a ranking sentence after them\<close>
  "grouped_rank_page =
     page_of ''My Points 12,345 to rank up''
       [leaf ''My Points'', leaf ''12,345'', leaf ''to rank up'']"

definition heading_page :: document where
  \<comment> \<open>a heading that names the label with a digit, then the label and its number\<close>
  "heading_page =
     page_of (''My Points 2'' @ [CHR 0x0A] @ ''My Points'' @ [CHR 0x0A] @ ''12,345'')
       [leaf ''My Points 2'',
        Element shown (''My Points'' @ [CHR 0x0A] @ ''12,345'') [leaf ''My Points'', leaf ''12,345'']]"

definition grouped_rank_body :: element where
  \<comment> \<open>the body of \<open>grouped_rank_page\<close>\<close>
  "grouped_rank_body =
     [(1, Element shown ''My Points 12,345 to rank up''
            [leaf ''My Points'', leaf ''12,345'', leaf ''to rank up'']),
      (0, html grouped_rank_page)]"

definition heading_body :: element where
  \<comment> \<open>the body of \<open>heading_page\<close>\<close>
  "heading_body =
     [(1, Element shown (''My Points 2'' @ [CHR 0x0A] @ ''My Points'' @ [CHR 0x0A] @ ''12,345'')
            [leaf ''My Points 2'',
             Element shown (''My Points'' @ [CHR 0x0A] @ ''12,345'')
               [leaf ''My Points'', leaf ''12,345'']]),
      (0, html heading_page)]"

definition heading_label :: element where
  \<comment> \<open>the label element of \<open>heading_page\<close>\<close>
  "heading_label =
     (0, leaf ''My Points'') #
     (1, Element shown (''My Points'' @ [CHR 0x0A] @ ''12,345'') [leaf ''My Points'', leaf ''12,345'']) #
     heading_body"

definition key0 :: string where
  "key0 = ''0xac0974bec39a17e36ba4a6b4d238ff944bacb478cbed5efcae784d7bf4f2ff80''"

definition addr0 :: string where
  "addr0 = ''0xf39Fd6e51aad88F6F4ce6aB8827279cffFb92266''"

definition no_referral :: referral_env where
  "no_referral =
     \<lparr>fill_code = Inr False, press_enter = None, sign_in_found = False,
      closed_after_sign_in = False, fund_wallet_found = False, earned = Inr ([], False)\<rparr>"

definition fund_referral :: referral_env where
  \<comment> \<open>the code is entered, Sign In is clicked and Fund My Wallet shows up\<close>
  "fund_referral =
     \<lparr>fill_code = Inr True, press_enter = None, sign_in_found = True,
      closed_after_sign_in = False, fund_wallet_found = True, earned = Inr ([], False)\<rparr>"

definition run_with :: "check_env \<Rightarrow> wallet_env" where
  \<comment> \<open>a run in which every step before the points check goes through\<close>
  "run_with c =
     \<lparr>launch = None, find_extension = Inr True, open_wallet = None, goto_main = None,
      check = c, close_throws = False\<rparr>"

definition fund_run :: wallet_env where
  "fund_run =
     run_with \<lparr>page_closed = False, referral_button = True, referral = fund_referral,
               page = Inr grouped_page\<rparr>"

definition points_run :: wallet_env where
  "points_run =
     run_with \<lparr>page_closed = False, referral_button = False, referral = no_referral,
               page = Inr grouped_page\<rparr>"

definition no_extension_run :: wallet_env where
  \<comment> \<open>the extension is not found, and closing the context fails\<close>
  "no_extension_run = (run_with (check points_run))\<lparr>find_extension := Inr False, close_throws := True\<rparr>"



definition encrypted_key_env :: key_env where
  \<comment> \<open>encrypted keys are present, and the one key they hold was kept without its prefix\<close>
  "encrypted_key_env =
     \<lparr>hasEncryptedKeys = True,
      promptPasswordWithRetry =
        Inr [''ac0974bec39a17e36ba4a6b4d238ff944bacb478cbed5efcae784d7bf4f2ff80''],
      keys_file = None\<rparr>"

definition empty_store :: "connection option" where
  "empty_store = Some \<lparr>rows = Map.empty, failing = False\<rparr>"

definition start :: world where
  "start = \<lparr>db = empty_store, log = []\<rparr>"

definition done_store :: connection where
  \<comment> \<open>a store that holds the sample address with 12345 points\<close>
  "done_store =
     \<lparr>rows = [addr0 \<mapsto> \<lparr>address = addr0, points = Some 12345, status = success,
                           error_message = None\<rparr>],
      failing = False\<rparr>"

definition zero_counters :: counters where
  "zero_counters = \<lparr>successCount = 0, errorCount = 0, skippedCount = 0\<rparr>"

fun is_close :: "event \<Rightarrow> bool" where
  "is_close (ContextClose b) = True"
| "is_close e = False"

fun saves_for :: "string \<Rightarrow> event list \<Rightarrow> event list" where
  \<comment> \<open>the calls of \<^verbatim>\<open>saveWalletData\<close> for an address\<close>
  "saves_for a [] = []"
| "saves_for a (SaveWalletData a' p s m # evs) =
     (if a' = a then SaveWalletData a' p s m # saves_for a evs else saves_for a evs)"
| "saves_for a (e # evs) = saves_for a evs"

section \<open>Properties\<close>

subsection \<open>Matching anchored patterns\<close>

lemma times_atom:
  "times (ms (Atom P)) n (i, rest, c) =
     (if n \<le> length rest \<and> list_all P (take n rest) then [(i + n, drop n rest, c)] else [])"
proof (induction n arbitrary: i rest)
  case 0
  then show ?case by simp
next
  case (Suc n)
  show ?case
  proof (cases rest)
    case Nil
    then show ?thesis by simp
  next
    case (Cons a as)
    then show ?thesis using Suc.IH [of "Suc i" as] by simp
  qed
qed

lemma search_bol_later: "0 < i \<Longrightarrow> search (Seq Bol r) s i rest = None"
  by (induction rest arbitrary: i) simp_all

lemma test_anchored: "rx_test (Seq Bol r) s \<longleftrightarrow> ms r (0, s, None) \<noteq> []"
  unfolding rx_test_def rx_match_def
  by (cases s) (auto simp: search_bol_later split: list.splits)

lemma ms_exact_eol:
  "ms (Seq (Rep n n (Atom P)) Eol) (i, rest, c) \<noteq> [] \<longleftrightarrow> length rest = n \<and> list_all P rest"
  by (auto simp: times_atom)

lemma ms_lit2:
  "ms (Seq (lit [a, b]) r) (i, rest, c) =
     (case rest of x # y # t \<Rightarrow> if x = a \<and> y = b then ms r (Suc (Suc i), t, c) else [] | _ \<Rightarrow> [])"
  by (simp add: lit_def split: list.splits)

subsection \<open>The keys that are loaded\<close>

lemma rx_key_bare_iff:
  "rx_test rx_key_bare s \<longleftrightarrow> length s = 64 \<and> list_all is_hex s"
  unfolding rx_key_bare_def test_anchored by (rule ms_exact_eol)

lemma rx_key_prefixed_iff:
  "rx_test rx_key_prefixed s \<longleftrightarrow> (\<exists>h. s = ''0x'' @ h \<and> length h = 64 \<and> list_all is_hex h)"
proof -
  have "ms (Seq (lit ''0x'') (Seq (Rep 64 64 (Atom is_hex)) Eol)) (0, s, None) \<noteq> [] \<longleftrightarrow>
          (\<exists>h. s = ''0x'' @ h \<and> length h = 64 \<and> list_all is_hex h)"
    unfolding ms_lit2 using ms_exact_eol [of 64 is_hex]
    by (auto split: list.splits)
  then show ?thesis
    unfolding rx_key_prefixed_def test_anchored .
qed

lemma is_prefixed_key_iff:
  "is_prefixed_key k \<longleftrightarrow> (\<exists>h. k = ''0x'' @ h \<and> length h = 64 \<and> list_all is_hex h)"
proof
  assume k: "is_prefixed_key k"
  then have "k = take 2 k @ drop 2 k" by simp
  with k have "k = ''0x'' @ drop 2 k" by (simp add: is_prefixed_key_def)
  moreover from k have "length (drop 2 k) = 64" "list_all is_hex (drop 2 k)"
    by (simp_all add: is_prefixed_key_def)
  ultimately show "\<exists>h. k = ''0x'' @ h \<and> length h = 64 \<and> list_all is_hex h" by blast
next
  assume "\<exists>h. k = ''0x'' @ h \<and> length h = 64 \<and> list_all is_hex h"
  then show "is_prefixed_key k" by (auto simp: is_prefixed_key_def)
qed

lemma rx_key_prefixed_is_key: "rx_test rx_key_prefixed s \<longleftrightarrow> is_prefixed_key s"
  by (simp add: rx_key_prefixed_iff is_prefixed_key_iff)

lemma parse_key_lines_refines:
  "parse_key_lines lines = List.map_filter key_of_line lines"
proof (induction lines)
  case Nil
  then show ?case by (simp add: map_filter_simps)
next
  case (Cons line lines)
  have excl: "trim line = [] \<or> startsWith (trim line) ''#'' \<Longrightarrow> key_of_line line = None"
    by (auto simp: key_of_line_def is_prefixed_key_def startsWith_def prefix_def is_hex_def Let_def)
  show ?case
  proof (cases "trim line \<noteq> [] \<and> \<not> startsWith (trim line) ''#''")
    case True
    then show ?thesis
      using Cons.IH
      by (simp add: map_filter_simps key_of_line_def rx_key_prefixed_is_key rx_key_bare_iff Let_def)
  next
    case False
    then show ?thesis
      using Cons.IH excl by (auto simp: map_filter_simps Let_def)
  qed
qed

lemma key_of_line_shape: "key_of_line line = Some k \<Longrightarrow> is_prefixed_key k"
  by (auto simp: key_of_line_def Let_def is_prefixed_key_def split: if_splits)

text \<open>
  C10, as amended. When no encrypted keys are present, every string that \<open>loadPrivateKeys\<close>
  returns matches \<^verbatim>\<open>^0x[0-9a-fA-F]{64}$\<close>, and the result is, line by line of \<^verbatim>\<open>keys.txt\<close>,
  the trimmed line when it has that shape, the trimmed line with \<^verbatim>\<open>0x\<close> prepended when it
  is exactly 64 hexadecimal digits, and nothing for every other line (empty lines and lines
  starting with \<^verbatim>\<open>#\<close> among them). When encrypted keys are present, the result is what
  \<^verbatim>\<open>KeyEncryption.promptPasswordWithRetry()\<close> gives, as it is, and no key when that throws.
\<close>

theorem loadPrivateKeys_shape:
  assumes "loadPrivateKeys env = Inr keys"
  shows "(\<not> hasEncryptedKeys env \<longrightarrow>
            (\<forall>k \<in> set keys. rx_test rx_key_prefixed k \<and> is_prefixed_key k) \<and>
            (\<forall>content. keys_file env = Some (Inr content) \<longrightarrow>
               keys = List.map_filter key_of_line (split_on (CHR 0x0A) content))) \<and>
         (hasEncryptedKeys env \<longrightarrow>
            (\<forall>ks. promptPasswordWithRetry env = Inr ks \<longrightarrow> keys = ks) \<and>
            (\<forall>e. promptPasswordWithRetry env = Inl e \<longrightarrow> keys = []))"
proof -
  have shape: "\<forall>k \<in> set (List.map_filter key_of_line ls). is_prefixed_key k" for ls
    by (auto simp: List.map_filter_def dest: key_of_line_shape)
  show ?thesis
  proof (cases "hasEncryptedKeys env")
    case True
    with assms show ?thesis
      by (auto simp: loadPrivateKeys_def split: sum.splits)
  next
    case False
    with assms show ?thesis
      by (auto simp: loadPrivateKeys_def parse_key_lines_refines rx_key_prefixed_is_key shape
               split: option.splits sum.splits)
  qed
qed

theorem loadPrivateKeys_shape_witness:
  "\<not> hasEncryptedKeys sample_key_env \<and>
   loadPrivateKeys sample_key_env =
     Inr [''0xac0974bec39a17e36ba4a6b4d238ff944bacb478cbed5efcae784d7bf4f2ff80'',
          ''0x59C6995E998F97A5A0044966F0945389DC9E86DAE88C7A8412F4603B6B78690D''] \<and>
   rx_test rx_key_prefixed ''0xac0974bec39a17e36ba4a6b4d238ff944bacb478cbed5efcae784d7bf4f2ff80'' \<and>
   rx_test rx_key_prefixed ''0x59C6995E998F97A5A0044966F0945389DC9E86DAE88C7A8412F4603B6B78690D''"
proof -
  have a: "\<not> hasEncryptedKeys sample_key_env"
    by (simp add: sample_key_env_def)
  have b: "loadPrivateKeys sample_key_env =
     Inr [''0xac0974bec39a17e36ba4a6b4d238ff944bacb478cbed5efcae784d7bf4f2ff80'',
          ''0x59C6995E998F97A5A0044966F0945389DC9E86DAE88C7A8412F4603B6B78690D'']"
    by code_simp
  from loadPrivateKeys_shape [OF b] a b show ?thesis by simp
qed

text \<open>
  C10 as stated fails when encrypted keys are present and one of them was kept as 64
  hexadecimal digits without the prefix: \<open>loadPrivateKeys\<close> returns it as it is, where the
  same line of \<^verbatim>\<open>keys.txt\<close> would have been given the prefix.
\<close>

theorem encrypted_keys_unchecked:
  "hasEncryptedKeys encrypted_key_env \<and>
   loadPrivateKeys encrypted_key_env =
     Inr [''ac0974bec39a17e36ba4a6b4d238ff944bacb478cbed5efcae784d7bf4f2ff80''] \<and>
   \<not> rx_test rx_key_prefixed ''ac0974bec39a17e36ba4a6b4d238ff944bacb478cbed5efcae784d7bf4f2ff80'' \<and>
   key_of_line ''ac0974bec39a17e36ba4a6b4d238ff944bacb478cbed5efcae784d7bf4f2ff80'' =
     Some ''0xac0974bec39a17e36ba4a6b4d238ff944bacb478cbed5efcae784d7bf4f2ff80''"
  by code_simp

subsection \<open>One run and the loop\<close>

lemma checkPoints_never_throws: "checkPointsOrUseReferralCode env \<noteq> Inl e"
  by (simp add: checkPointsOrUseReferralCode_def split: sum.splits)

lemma db_save: "(db (save w a p s m) = None) = (db w = None)"
  by (simp add: save_def saveWalletData_def split: option.splits)

lemma db_close_session: "db (close_session env w) = db w"
  by (simp add: close_session_def)

lemma log_save: "log (save w a p s m) = log w @ [SaveWalletData a p s m]"
  by (simp add: save_def)

lemma log_close_session:
  "log (close_session env w) = log w @ [ContextClose (close_throws env), CleanupTempProfile]"
  by (simp add: close_session_def)

lemma db_processWallet:
  "(db (snd (processWallet v env k w)) = None) = (db w = None)"
  by (simp add: processWallet_def failed_def Let_def db_close_session db_save
           split: option.splits sum.splits bool.splits)

lemma shouldSkipWallet_open: "db w \<noteq> None \<Longrightarrow> shouldSkipWallet (db w) a \<noteq> Inl e"
  by (auto simp: shouldSkipWallet_def getWalletByAddress_def split: option.splits)

lemma shouldSkipWallet_needs_db: "shouldSkipWallet d a = Inr b \<Longrightarrow> d \<noteq> None"
  by (auto simp: shouldSkipWallet_def getWalletByAddress_def split: option.splits)

lemma importWallet_loop_completes:
  "db w \<noteq> None \<Longrightarrow> \<exists>res. importWallet_loop v runs (w, c) = Inr res"
proof (induction runs arbitrary: w c)
  case Nil
  then show ?case by simp
next
  case (Cons run runs)
  obtain k env where run: "run = (k, env)" by (cases run)
  obtain r w1 where pw: "processWallet v env k w = (r, w1)" by (cases "processWallet v env k w")
  from Cons.prems have w1: "db w1 \<noteq> None"
    using db_processWallet [of v env k w] pw by simp
  show ?case
  proof (cases "shouldSkipWallet (db w) (getAddressFromPrivateKey v k)")
    case (Inl e)
    with Cons.prems show ?thesis using shouldSkipWallet_open [of w] by blast
  next
    case (Inr skip)
    show ?thesis
    proof (cases skip)
      case True
      with Inr run Cons.IH [OF Cons.prems] show ?thesis by simp
    next
      case False
      show ?thesis
      proof (cases r)
        case (Inl e)
        from w1 have "db (save w1 (getAddressFromPrivateKey v k) None error (Some (message_of e))) \<noteq> None"
          by (simp add: db_save)
        from Cons.IH [OF this] Inl False Inr run pw show ?thesis by simp
      next
        case (Inr result)
        with False \<open>shouldSkipWallet (db w) (getAddressFromPrivateKey v k) = Inr skip\<close>
          run pw Cons.IH [OF w1] show ?thesis by simp
      qed
    qed
  qed
qed

text \<open>
  C9. In a run whose browser session is there, \<open>processWallet\<close> closes the context once and
  removes the temporary profile once, whatever the steps of the run do: on the return after
  points were found, on the return without points, and when the exception of a step is
  thrown on. Whether \<^verbatim>\<open>context.close()\<close> itself throws is part of the environment and
  changes nothing.
\<close>

theorem session_closed_once:
  assumes "launch env = None" and "processWallet v env k w = (r, w')"
  shows "\<exists>evs. log w' = log w @ evs \<and> length (filter is_close evs) = 1 \<and>
           count_list evs CleanupTempProfile = 1 \<and>
           (\<exists>before. evs = before @ [ContextClose (close_throws env), CleanupTempProfile])"
  using assms
  by (auto simp: processWallet_def failed_def Let_def log_save log_close_session
           split: option.splits sum.splits bool.splits if_splits)

theorem session_closed_once_witness:
  "launch no_extension_run = None \<and>
   (\<exists>evs. log (snd (processWallet checksum_accounts no_extension_run key0 start)) = log start @ evs \<and>
      length (filter is_close evs) = 1 \<and> count_list evs CleanupTempProfile = 1 \<and>
      (\<exists>before. evs = before @ [ContextClose True, CleanupTempProfile]))"
  using session_closed_once [of no_extension_run checksum_accounts key0 start
          "fst (processWallet checksum_accounts no_extension_run key0 start)"
          "snd (processWallet checksum_accounts no_extension_run key0 start)"]
  by (simp add: no_extension_run_def run_with_def)

lemma saves_for_append: "saves_for a (xs @ ys) = saves_for a xs @ saves_for a ys"
  by (induction a xs rule: saves_for.induct) simp_all

text \<open>
  C1, as amended. For a wallet that is not skipped, the calls of \<open>saveWalletData\<close> for its
  address in the run are: one, with \<open>success\<close> and the points, when the points check gives
  points; two, with the same arguments (no points, \<open>error\<close>, the message), when
  \<open>processWallet\<close> throws: its own handler saves the error, and the handler of the loop
  saves it again.
\<close>

theorem saves_per_outcome:
  assumes "shouldSkipWallet (db w) (getAddressFromPrivateKey v k) = Inr False"
    and "processWallet v env k w = (r, w1)"
    and "importWallet_loop v [(k, env)] (w, c) = Inr (w', c')"
  shows "\<exists>evs. log w' = log w @ evs \<and>
           (\<forall>e. r = Inl e \<longrightarrow>
              saves_for (getAddressFromPrivateKey v k) evs =
                [SaveWalletData (getAddressFromPrivateKey v k) None error (Some (message_of e)),
                 SaveWalletData (getAddressFromPrivateKey v k) None error (Some (message_of e))]) \<and>
           (\<forall>p. launch env = None \<and> find_extension env = Inr True \<and> open_wallet env = None \<and>
                goto_main env = None \<and> checkPointsOrUseReferralCode (check env) = Inr (Some p) \<longrightarrow>
              r = Inr True \<and>
              saves_for (getAddressFromPrivateKey v k) evs =
                [SaveWalletData (getAddressFromPrivateKey v k) (Some p) success None])"
proof (cases r)
  case (Inl e)
  with assms have w': "w' = save w1 (getAddressFromPrivateKey v k) None error (Some (message_of e))"
    by simp
  from assms(2) Inl have
    "\<exists>evs. log w1 = log w @ evs \<and>
       saves_for (getAddressFromPrivateKey v k) evs =
         [SaveWalletData (getAddressFromPrivateKey v k) None error (Some (message_of e))]"
    by (auto simp: processWallet_def failed_def Let_def log_save log_close_session
             split: option.splits sum.splits bool.splits if_splits)
  then obtain evs where "log w1 = log w @ evs"
    "saves_for (getAddressFromPrivateKey v k) evs =
       [SaveWalletData (getAddressFromPrivateKey v k) None error (Some (message_of e))]"
    by blast
  with w' have "log w' = log w @ (evs @ [SaveWalletData (getAddressFromPrivateKey v k) None error (Some (message_of e))])"
    "saves_for (getAddressFromPrivateKey v k) (evs @ [SaveWalletData (getAddressFromPrivateKey v k) None error (Some (message_of e))]) =
       [SaveWalletData (getAddressFromPrivateKey v k) None error (Some (message_of e)),
        SaveWalletData (getAddressFromPrivateKey v k) None error (Some (message_of e))]"
    by (simp_all add: log_save saves_for_append)
  moreover from assms(2) Inl have
    "\<not> (launch env = None \<and> find_extension env = Inr True \<and> open_wallet env = None \<and>
        goto_main env = None \<and> checkPointsOrUseReferralCode (check env) = Inr (Some p))" for p
    by (auto simp: processWallet_def Let_def)
  ultimately show ?thesis using Inl by blast
next
  case (Inr result)
  with assms have w': "w' = w1" by (simp split: if_splits)
  from assms(2) have "log w1 = log w @ drop (length (log w)) (log w1)"
    by (auto simp: processWallet_def failed_def Let_def log_save log_close_session
             split: option.splits sum.splits bool.splits if_splits)
  moreover have "r = Inr True \<and>
      saves_for (getAddressFromPrivateKey v k) (drop (length (log w)) (log w1)) =
        [SaveWalletData (getAddressFromPrivateKey v k) (Some p) success None]"
    if "launch env = None \<and> find_extension env = Inr True \<and> open_wallet env = None \<and>
        goto_main env = None \<and> checkPointsOrUseReferralCode (check env) = Inr (Some p)" for p
    using that assms(2)
    by (auto simp: processWallet_def Let_def log_save log_close_session)
  ultimately show ?thesis using Inr w' by blast
qed

lemma empty_balance_thrown: "is_empty_balance (Error wallet_unsuitable)"
  by code_simp

lemma start_address: "getAddressFromPrivateKey checksum_accounts key0 = addr0"
  by (simp add: getAddressFromPrivateKey_def checksum_accounts_def key0_def addr0_def)

lemma no_extension_result:
  "processWallet checksum_accounts no_extension_run key0 start =
     (Inl (Error extension_not_found),
      \<lparr>db = Some \<lparr>rows = [addr0 \<mapsto> \<lparr>address = addr0, points = None, status = error,
                                       error_message = Some extension_not_found\<rparr>],
                   failing = False\<rparr>,
       log = [LaunchBrowser, SaveWalletData addr0 None error (Some extension_not_found),
              ContextClose True, CleanupTempProfile]\<rparr>)"
  by (simp add: processWallet_def failed_def save_def close_session_def saveWalletData_def
        start_address no_extension_run_def run_with_def start_def empty_store_def Let_def
        message_of_def extension_not_found_def)

lemma skip_start: "shouldSkipWallet (db start) addr0 = Inr False"
  by (simp add: shouldSkipWallet_def getWalletByAddress_def start_def empty_store_def)

lemma no_extension_loop:
  "importWallet_loop checksum_accounts [(key0, no_extension_run)] (start, zero_counters) =
     Inr (\<lparr>db = Some \<lparr>rows = [addr0 \<mapsto> \<lparr>address = addr0, points = None, status = error,
                                       error_message = Some extension_not_found\<rparr>],
                   failing = False\<rparr>,
           log = [LaunchBrowser, SaveWalletData addr0 None error (Some extension_not_found),
              ContextClose True, CleanupTempProfile,
              SaveWalletData addr0 None error (Some extension_not_found)]\<rparr>,
          \<lparr>successCount = 0, errorCount = 1, skippedCount = 0\<rparr>)"
  by (simp add: start_address skip_start no_extension_result save_def saveWalletData_def
        message_of_def zero_counters_def extension_not_found_def Let_def)

text \<open>
  C1 as stated fails where the extension is not found: the run ends in \<open>error\<close>, and the
  store is called twice for the address.
\<close>

theorem error_saved_twice:
  "fst (processWallet checksum_accounts no_extension_run key0 start) = Inl (Error extension_not_found) \<and>
   (\<exists>w c. importWallet_loop checksum_accounts [(key0, no_extension_run)] (start, zero_counters) = Inr (w, c) \<and>
      length (saves_for addr0 (log w)) = 2)"
  unfolding no_extension_result no_extension_loop by simp

theorem saves_per_outcome_witness:
  "shouldSkipWallet (db start) (getAddressFromPrivateKey checksum_accounts key0) = Inr False \<and>
   (\<exists>w c evs.
      importWallet_loop checksum_accounts [(key0, no_extension_run)] (start, zero_counters) = Inr (w, c) \<and>
      log w = log start @ evs \<and>
      saves_for addr0 evs =
        [SaveWalletData addr0 None error (Some extension_not_found),
         SaveWalletData addr0 None error (Some extension_not_found)])"
proof -
  have skip: "shouldSkipWallet (db start) (getAddressFromPrivateKey checksum_accounts key0) = Inr False"
    by (simp add: start_address skip_start)
  from saves_per_outcome [OF skip no_extension_result no_extension_loop] skip
  show ?thesis
    unfolding no_extension_loop
    by (simp add: start_address message_of_def start_def)
qed

lemma fund_referral_throws: "enterReferralCode fund_referral = Inl (Error wallet_unsuitable)"
  by (simp add: enterReferralCode_def referral_steps_def fund_referral_def empty_balance_thrown)

lemma fund_check_null: "checkPointsOrUseReferralCode (check fund_run) = Inr None"
  by (simp add: checkPointsOrUseReferralCode_def check_steps_def fund_run_def run_with_def
        fund_referral_throws empty_balance_thrown)

lemma fund_result:
  "processWallet checksum_accounts fund_run key0 start =
     (Inr True, \<lparr>db = empty_store, log = [LaunchBrowser, ContextClose False, CleanupTempProfile]\<rparr>)"
  using fund_check_null
  by (simp add: processWallet_def close_session_def fund_run_def run_with_def start_def Let_def)

lemma empty_balance_never_saved:
  assumes "processWallet v env k w = (r, w')"
  shows "\<exists>evs. log w' = log w @ evs \<and>
           (\<forall>a p m. SaveWalletData a p empty_balance m \<notin> set evs)"
  using assms
  by (auto simp: processWallet_def failed_def Let_def log_save log_close_session
        checkPoints_never_throws split: option.splits sum.splits bool.splits if_splits)

text \<open>
  C4. A run in which the referral code is entered and Fund My Wallet shows up:
  \<open>enterReferralCode\<close> throws the empty-balance error, \<open>checkPointsOrUseReferralCode\<close> turns
  it into \<^verbatim>\<open>null\<close> in its outer handler, and \<open>processWallet\<close> returns \<^verbatim>\<open>true\<close> without a call
  of \<open>saveWalletData\<close>; the loop counts the wallet as a success.
\<close>

theorem fund_wallet_run_unrecorded:
  "fund_wallet_found (referral (check fund_run)) \<and>
   enterReferralCode (referral (check fund_run)) = Inl (Error wallet_unsuitable) \<and>
   checkPointsOrUseReferralCode (check fund_run) = Inr None \<and>
   processWallet checksum_accounts fund_run key0 start =
     (Inr True, \<lparr>db = empty_store, log = [LaunchBrowser, ContextClose False, CleanupTempProfile]\<rparr>) \<and>
   importWallet_loop checksum_accounts [(key0, fund_run)] (start, zero_counters) =
     Inr (\<lparr>db = empty_store, log = [LaunchBrowser, ContextClose False, CleanupTempProfile]\<rparr>,
          \<lparr>successCount = 1, errorCount = 0, skippedCount = 0\<rparr>)"
proof -
  have "fund_wallet_found (referral (check fund_run))"
    "enterReferralCode (referral (check fund_run)) = Inl (Error wallet_unsuitable)"
    using fund_referral_throws by (simp_all add: fund_run_def run_with_def fund_referral_def)
  moreover have "importWallet_loop checksum_accounts [(key0, fund_run)] (start, zero_counters) =
     Inr (\<lparr>db = empty_store, log = [LaunchBrowser, ContextClose False, CleanupTempProfile]\<rparr>,
          \<lparr>successCount = 1, errorCount = 0, skippedCount = 0\<rparr>)"
    by (simp add: start_address skip_start fund_result zero_counters_def Let_def)
  ultimately show ?thesis using fund_check_null fund_result by simp
qed

lemma handler_after_launch:
  assumes skip: "shouldSkipWallet (db w) (getAddressFromPrivateKey v k) = Inr False"
    and session: "launch env = None"
    and thrown: "find_extension env = Inl e \<or>
                 (find_extension env = Inr False \<and> e = Error extension_not_found) \<or>
                 (find_extension env = Inr True \<and> open_wallet env = Some e)"
  shows "\<exists>w'. importWallet_loop v ((k, env) # rest) (w, c) =
                 importWallet_loop v rest (w', c\<lparr>errorCount := errorCount c + 1\<rparr>) \<and>
              log w' = log w @
                [LaunchBrowser,
                 SaveWalletData (getAddressFromPrivateKey v k) None error (Some (message_of e)),
                 ContextClose (close_throws env), CleanupTempProfile,
                 SaveWalletData (getAddressFromPrivateKey v k) None error (Some (message_of e))] \<and>
              (\<forall>conn. db w = Some conn \<and> \<not> failing conn \<longrightarrow>
                 (\<exists>conn'. db w' = Some conn' \<and>
                    rows conn' (getAddressFromPrivateKey v k) =
                      Some \<lparr>address = getAddressFromPrivateKey v k, points = None, status = error,
                            error_message = (if message_of e = [] then None
                                             else Some (message_of e))\<rparr>)) \<and>
              (\<exists>res. importWallet_loop v rest (w', c\<lparr>errorCount := errorCount c + 1\<rparr>) = Inr res)"
proof -
  define a where "a = getAddressFromPrivateKey v k"
  define w1 where "w1 = close_session env (save (w\<lparr>log := log w @ [LaunchBrowser]\<rparr>) a None error (Some (message_of e)))"
  define w' where "w' = save w1 a None error (Some (message_of e))"
  from session thrown have pw: "processWallet v env k w = (Inl e, w1)"
    by (auto simp: processWallet_def failed_def Let_def w1_def a_def)
  with skip have "importWallet_loop v ((k, env) # rest) (w, c) =
      importWallet_loop v rest (w', c\<lparr>errorCount := errorCount c + 1\<rparr>)"
    by (simp add: w'_def a_def)
  moreover have "log w' = log w @
      [LaunchBrowser, SaveWalletData a None error (Some (message_of e)),
       ContextClose (close_throws env), CleanupTempProfile,
       SaveWalletData a None error (Some (message_of e))]"
    by (simp add: w'_def w1_def log_save log_close_session)
  moreover have "\<exists>conn'. db w' = Some conn' \<and>
       rows conn' a = Some \<lparr>address = a, points = None, status = error,
            error_message = (if message_of e = [] then None else Some (message_of e))\<rparr>"
    if "db w = Some conn \<and> \<not> failing conn" for conn
    using that
    by (simp add: w'_def w1_def save_def close_session_def saveWalletData_def)
  moreover have "\<exists>res. importWallet_loop v rest (w', c\<lparr>errorCount := errorCount c + 1\<rparr>) = Inr res"
  proof -
    from skip have "db w \<noteq> None" by (rule shouldSkipWallet_needs_db)
    then have "db w' \<noteq> None"
      by (simp add: w'_def w1_def db_save db_close_session)
    then show ?thesis by (rule importWallet_loop_completes)
  qed
  ultimately show ?thesis unfolding a_def by blast
qed


lemma processWallet_throws:
  assumes "launch env = None" and "fst (processWallet v env k w) = Inl e"
  shows "find_extension env = Inl e \<or>
         (find_extension env = Inr False \<and> e = Error extension_not_found) \<or>
         (find_extension env = Inr True \<and> open_wallet env = Some e)"
  using assms
  by (auto simp: processWallet_def failed_def Let_def
           split: option.splits sum.splits bool.splits if_splits)



lemma shouldSkipWallet_uninitialised: "shouldSkipWallet None a = Inl (Error not_initialised)"
  by (simp add: shouldSkipWallet_def getWalletByAddress_def)

text \<open>
  C8. With an open connection whose statements work, \<open>shouldSkipWallet\<close> returns \<^verbatim>\<open>true\<close>
  exactly for an address whose row has status \<open>success\<close> and points above 0, and
  \<^verbatim>\<open>false\<close> for an address without a row and for every other row; for a key with such an
  address the loop adds one to its skipped counter and goes on with the next key:
  \<open>processWallet\<close> is not called, the log and the store stay as they are.
\<close>

theorem skip_recorded_success:
  assumes "db w = Some conn" and "\<not> failing conn"
  shows "shouldSkipWallet (db w) a =
           Inr (\<exists>r p. rows conn a = Some r \<and> status r = success \<and> points r = Some p \<and> 0 < p) \<and>
         ((\<exists>r p. rows conn (getAddressFromPrivateKey v k) = Some r \<and> status r = success \<and>
                 points r = Some p \<and> 0 < p) \<longrightarrow>
            importWallet_loop v ((k, env) # rest) (w, c) =
              importWallet_loop v rest (w, c\<lparr>skippedCount := skippedCount c + 1\<rparr>))"
proof -
  have skip: "shouldSkipWallet (db w) b =
           Inr (\<exists>r p. rows conn b = Some r \<and> status r = success \<and> points r = Some p \<and> 0 < p)" for b
    using assms
    by (auto simp: shouldSkipWallet_def getWalletByAddress_def split: option.splits)
  show ?thesis
    using skip [of a] skip [of "getAddressFromPrivateKey v k"] by simp
qed

theorem skip_recorded_success_witness:
  "db \<lparr>db = Some done_store, log = []\<rparr> = Some done_store \<and> \<not> failing done_store \<and>
   shouldSkipWallet (Some done_store) addr0 = Inr True \<and>
   shouldSkipWallet (Some done_store) zero_address = Inr False \<and>
   importWallet_loop checksum_accounts [(key0, points_run)]
       (\<lparr>db = Some done_store, log = []\<rparr>, zero_counters) =
     Inr (\<lparr>db = Some done_store, log = []\<rparr>,
          \<lparr>successCount = 0, errorCount = 0, skippedCount = 1\<rparr>)"
proof -
  have a: "db \<lparr>db = Some done_store, log = []\<rparr> = Some done_store" by simp
  have b: "\<not> failing done_store" by (simp add: done_store_def)
  have row: "rows done_store addr0 = Some \<lparr>address = addr0, points = Some 12345, status = success,
                           error_message = None\<rparr>"
    "rows done_store zero_address = None"
    by (simp_all add: done_store_def addr0_def zero_address_def)
  from skip_recorded_success [OF a b, of addr0 checksum_accounts key0 points_run "[]" zero_counters]
       skip_recorded_success [OF a b, of zero_address checksum_accounts key0 points_run "[]" zero_counters]
  show ?thesis
    using a b row by (simp add: start_address zero_counters_def)
qed

subsection \<open>The address\<close>

text \<open>
  C2, as amended. \<open>getAddressFromPrivateKey\<close> gives the address exactly as the derivation
  gives it, and the all-zero address, which is in lower case, when the derivation throws:
  the result is determined by what the derivation answers for the key, and it is in lower
  case exactly when the derived address is. No case is changed on the way.
\<close>

theorem address_as_derived:
  "(\<forall>a. privateKeyToAccount privateKey = Inr a \<longrightarrow>
        getAddressFromPrivateKey privateKeyToAccount privateKey = a) \<and>
   (\<forall>e. privateKeyToAccount privateKey = Inl e \<longrightarrow>
        getAddressFromPrivateKey privateKeyToAccount privateKey = zero_address) \<and>
   toLowerCase zero_address = zero_address \<and>
   (toLowerCase (getAddressFromPrivateKey privateKeyToAccount privateKey) =
      getAddressFromPrivateKey privateKeyToAccount privateKey \<longleftrightarrow>
    (\<forall>a. privateKeyToAccount privateKey = Inr a \<longrightarrow> toLowerCase a = a))"
proof -
  have "toLowerCase zero_address = zero_address" by code_simp
  then show ?thesis
    by (auto simp: getAddressFromPrivateKey_def split: sum.splits)
qed

theorem address_as_derived_witness:
  "checksum_accounts key0 = Inr addr0 \<and>
   getAddressFromPrivateKey checksum_accounts key0 = addr0 \<and>
   checksum_accounts ''0x1234'' = Inl (Error []) \<and>
   getAddressFromPrivateKey checksum_accounts ''0x1234'' = zero_address \<and>
   toLowerCase (getAddressFromPrivateKey checksum_accounts ''0x1234'') =
     getAddressFromPrivateKey checksum_accounts ''0x1234''"
proof -
  have a: "checksum_accounts key0 = Inr addr0"
    by (simp add: checksum_accounts_def key0_def addr0_def)
  have b: "checksum_accounts ''0x1234'' = Inl (Error [])"
    by (simp add: checksum_accounts_def)
  from address_as_derived [of checksum_accounts key0]
       address_as_derived [of checksum_accounts "''0x1234''"] a b
  show ?thesis by simp
qed

text \<open>
  C2 as stated fails for a derivation that answers in the checksum encoding: the address
  returned for the sample key has upper-case letters.
\<close>

theorem checksum_address_not_lower_case:
  "getAddressFromPrivateKey checksum_accounts key0 = ''0xf39Fd6e51aad88F6F4ce6aB8827279cffFb92266'' \<and>
   toLowerCase (getAddressFromPrivateKey checksum_accounts key0) \<noteq>
     getAddressFromPrivateKey checksum_accounts key0"
proof -
  have "toLowerCase ''0xf39Fd6e51aad88F6F4ce6aB8827279cffFb92266'' \<noteq>
          ''0xf39Fd6e51aad88F6F4ce6aB8827279cffFb92266''"
    by code_simp
  then show ?thesis by (simp add: start_address addr0_def)
qed

subsection \<open>The points that are extracted\<close>

lemma positive_number_pos: "positive_number g = Some n \<Longrightarrow> 0 < n"
  by (auto simp: positive_number_def split: option.splits if_splits)

lemma fast_path_pos: "fast_path t = Some n \<Longrightarrow> 0 < n"
  by (auto simp: fast_path_def Let_def positive_number_pos split: option.splits if_splits)

lemma points_of_element_pos: "points_of_element el = Some n \<Longrightarrow> 0 < n"
  by (auto simp: points_of_element_def split: option.splits if_splits)

lemma first_some_Some: "first_some f xs = Some y \<Longrightarrow> \<exists>x \<in> set xs. f x = Some y"
  by (induction xs) (auto split: option.splits)

lemma first_some_skip:
  "\<forall>x \<in> set pre. f x = None \<Longrightarrow> first_some f (pre @ xs) = first_some f xs"
  by (induction pre) auto

lemma zero_page_null: "extract_points zero_page = None"
  by code_simp

lemma extract_points_pos: "extract_points d = Some n \<Longrightarrow> 0 < n"
  by (auto simp: extract_points_def Let_def split: option.splits if_splits
           dest: fast_path_pos points_of_element_pos first_some_Some)

text \<open>
  C6. Whatever the page, \<open>extract_points\<close> gives nothing or a number above 0; for the page
  with the label and the text 0 next to it, it gives nothing.
\<close>

theorem extract_points_positive:
  "(\<forall>n. extract_points d = Some n \<longrightarrow> 0 < n) \<and> extract_points zero_page = None"
  using extract_points_pos [of d] zero_page_null by blast

lemma grouped_page_points: "extract_points grouped_page = Some 12345"
  by code_simp

theorem extract_points_positive_witness:
  "extract_points grouped_page = Some 12345 \<and> (0::int) < 12345"
  using extract_points_positive [of grouped_page] grouped_page_points by simp

lemma points_earned_pos: "points_earned t = Some n \<Longrightarrow> 0 < n"
  by (auto simp: points_earned_def positive_number_pos split: option.splits if_splits)

lemma checked_points_pos: "checkPointsOrUseReferralCode env = Inr (Some n) \<Longrightarrow> 0 < n"
  by (auto simp: checkPointsOrUseReferralCode_def check_steps_def enterReferralCode_def
        referral_steps_def split: sum.splits option.splits if_splits prod.splits
        dest: points_earned_pos extract_points_pos)

text \<open>
  C5, as amended. On the text \<^verbatim>\<open>My Points 750 points to rank #1,200\<close> the fast path and the
  search for the label followed by a number (strategies 3 and 5) give nothing, since
  \<^verbatim>\<open>to rank\<close> follows 750 within 30 characters, and a page that holds the text in one text
  node gives nothing.
\<close>

theorem rank_text_rejected:
  "fast_path rank_text = None \<and> labelled_number rank_text = None \<and>
   extract_points rank_page_plain = None"
  by code_simp

text \<open>
  C5 as stated fails on a page that shows the same text with the label and 750 in elements
  of their own: strategy 2 finds 750 as a child that is a number and nothing else.
\<close>

theorem rank_number_in_own_element:
  "map_option (\<lambda>b. innerText (snd (hd b))) (body rank_page_split) = Some rank_text \<and>
   map_option (\<lambda>b. textContent (snd (hd b))) (body rank_page_split) = Some rank_text \<and>
   extract_points rank_page_split = Some 750"
  by code_simp

lemma grouped_text: 
  "\<not> js_includes (toLowerCase ''12,345'') ''points''"
  "\<not> js_includes (toLowerCase ''12,345'') ''to rank''"
  "\<not> js_includes (toLowerCase ''12,345'') ''referrals''"
  "\<not> js_includes (toLowerCase ''12,345'') ''unranked''"
  "pure_number ''12,345'' = Some 12345"
  by code_simp+

lemma strategy1_grouped:
  assumes "nextElementSibling el = Some sibling" and "visible sibling"
    and "trim (textContent sibling) = ''12,345''"
  shows "strategy1 el = Some 12345"
  using assms by (simp add: strategy1_def Let_def grouped_text)

text \<open>
  C7, as amended. For an element collected by the tree walker whose next sibling element is
  visible and has the text \<^verbatim>\<open>12,345\<close>, strategy 1 gives 12345, and so does \<open>extract_points\<close>
  when the fast path has given nothing or 12345 and the elements collected before it give
  nothing.
\<close>

theorem next_sibling_grouped_number:
  assumes "body d = Some b"
    and "js_includes (textContent (snd (hd b))) ''My Points'' \<or>
         js_includes (innerText (snd (hd b))) ''My Points''"
    and "fast_path (if innerText (snd (hd b)) \<noteq> [] then innerText (snd (hd b))
                    else textContent (snd (hd b))) \<in> {None, Some 12345}"
    and "walk_nodes b 0 (childNodes (snd (hd b))) = pre @ el # post"
    and "\<forall>x \<in> set pre. points_of_element x = None"
    and "nextElementSibling el = Some sibling" and "visible sibling"
    and "trim (textContent sibling) = ''12,345''"
  shows "strategy1 el = Some 12345 \<and> extract_points d = Some 12345"
proof -
  have s1: "strategy1 el = Some 12345"
    using assms(6-8) by (rule strategy1_grouped)
  then have "points_of_element el = Some 12345"
    by (simp add: points_of_element_def or_else_def)
  with assms(4,5) have "first_some points_of_element (walk_nodes b 0 (childNodes (snd (hd b)))) = Some 12345"
    by (simp add: first_some_skip)
  with assms(1-3) s1 show ?thesis
    by (auto simp: extract_points_def Let_def)
qed

lemma grouped_rank_facts:
  "body grouped_rank_page = Some grouped_rank_body"
  "js_includes (innerText (snd (hd grouped_rank_body))) ''My Points''"
  "fast_path (if innerText (snd (hd grouped_rank_body)) \<noteq> [] then innerText (snd (hd grouped_rank_body))
              else textContent (snd (hd grouped_rank_body))) = None"
  "walk_nodes grouped_rank_body 0 (childNodes (snd (hd grouped_rank_body))) =
     [] @ ((0, leaf ''My Points'') # grouped_rank_body) # [(0, leaf ''My Points'') # grouped_rank_body]"
  "nextElementSibling ((0, leaf ''My Points'') # grouped_rank_body) = Some (leaf ''12,345'')"
  "visible (leaf ''12,345'')"
  "trim (textContent (leaf ''12,345'')) = ''12,345''"
  by code_simp+

theorem next_sibling_grouped_number_witness:
  "body grouped_rank_page = Some grouped_rank_body \<and>
   nextElementSibling ((0, leaf ''My Points'') # grouped_rank_body) = Some (leaf ''12,345'') \<and>
   visible (leaf ''12,345'') \<and>
   trim (textContent (leaf ''12,345'')) = ''12,345'' \<and>
   strategy1 ((0, leaf ''My Points'') # grouped_rank_body) = Some 12345 \<and>
   extract_points grouped_rank_page = Some 12345"
  using next_sibling_grouped_number [OF grouped_rank_facts(1) _ _ grouped_rank_facts(4) _
          grouped_rank_facts(5-7)] grouped_rank_facts
  by simp

lemma heading_facts:
  "body heading_page = Some heading_body"
  "heading_label \<in> set (walk_nodes heading_body 0 (childNodes (snd (hd heading_body))))"
  "textContent (snd (hd heading_label)) = ''My Points''"
  "nextElementSibling heading_label = Some (leaf ''12,345'')"
  "extract_points heading_page = Some 2"
  by code_simp+

text \<open>
  C7 as stated fails on a page with a heading \<^verbatim>\<open>My Points 2\<close> before the label: the label
  has the visible next sibling \<^verbatim>\<open>12,345\<close>, and the fast path returns 2.
\<close>

theorem heading_number_returned:
  "body heading_page = Some heading_body \<and>
   heading_label \<in> set (walk_nodes heading_body 0 (childNodes (snd (hd heading_body)))) \<and>
   textContent (snd (hd heading_label)) = ''My Points'' \<and>
   nextElementSibling heading_label = Some (leaf ''12,345'') \<and>
   visible (leaf ''12,345'') \<and>
   trim (textContent (leaf ''12,345'')) = ''12,345'' \<and>
   extract_points heading_page = Some 2"
  using heading_facts grouped_rank_facts(6,7) by simp

end
